theory Spec2Isabelle
  imports Complex_Main "HOL-Library.Sublist"
begin

section \<open>Python values and strings\<close>

text \<open>
  A Python string is modelled by its UTF-8 bytes, as a list of 8-bit characters; the
  dash in three messages of the source is its three bytes. On ASCII text
  \<open>str.lower\<close> maps A-Z to a-z and \<open>str.strip\<close> removes the ASCII white space from
  both ends; what the two built-in methods do to text that is not ASCII is taken from
  outside (\<open>unicode_lower\<close> and \<open>unicode_strip\<close> below). \<open>x in s\<close> on strings is
  \<open>sublist x s\<close>.
\<close>

definition is_ascii :: "string \<Rightarrow> bool" where
  "is_ascii s = list_all (\<lambda>c. (of_char c :: nat) < 128) s"

definition ascii_lower_char :: "char \<Rightarrow> char" where
  "ascii_lower_char c =
     (let n = (of_char c :: nat)
      in if 65 \<le> n \<and> n \<le> 90 then char_of (n + 32) else c)"

definition ascii_lower :: "string \<Rightarrow> string" where
  "ascii_lower s = map ascii_lower_char s"

definition ascii_isspace :: "char \<Rightarrow> bool" where
  "ascii_isspace c =
     (let n = (of_char c :: nat)
      in (9 \<le> n \<and> n \<le> 13) \<or> (28 \<le> n \<and> n \<le> 32))"

definition ascii_strip :: "string \<Rightarrow> string" where
  "ascii_strip s = rev (dropWhile ascii_isspace (rev (dropWhile ascii_isspace s)))"

definition any_in :: "string list \<Rightarrow> string \<Rightarrow> bool" where
  \<comment> \<open>\<open>any(x in lower for x in xs)\<close>\<close>
  "any_in xs lower = list_ex (\<lambda>x. sublist x lower) xs"

section \<open>Dynamically typed values\<close>

text \<open>
  The values the gateway handles: the caller's parameters and the JSON bodies of the CRM.
  Numbers are Python ints (floating point is outside the model). A dictionary is an
  association list with string keys; a key is looked up from the front.
\<close>

datatype pyval =
    PNone
  | PBool bool
  | PInt int
  | PStr string
  | PList "pyval list"
  | PDict "(string \<times> pyval) list"

type_synonym pydict = "(string \<times> pyval) list"

datatype py_error = AttributeError | TypeError

fun truthy :: "pyval \<Rightarrow> bool" where
  "truthy PNone = False"
| "truthy (PBool b) = b"
| "truthy (PInt i) = (i \<noteq> 0)"
| "truthy (PStr s) = (s \<noteq> [])"
| "truthy (PList xs) = (xs \<noteq> [])"
| "truthy (PDict d) = (d \<noteq> [])"

definition py_or :: "pyval \<Rightarrow> pyval \<Rightarrow> pyval" where
  \<comment> \<open>\<open>a or b\<close>, for operands whose evaluation cannot raise\<close>
  "py_or a b = (if truthy a then a else b)"

definition dict_get :: "pydict \<Rightarrow> string \<Rightarrow> pyval \<Rightarrow> pyval" where
  \<comment> \<open>\<open>d.get(k, dflt)\<close>; \<open>d.get(k)\<close> is \<open>dict_get d k PNone\<close>\<close>
  "dict_get d k dflt = (case map_of d k of Some v \<Rightarrow> v | None \<Rightarrow> dflt)"

fun as_int :: "pyval \<Rightarrow> py_error + int" where
  \<comment> \<open>the operand of \<open>+ 1\<close> and \<open>- 1\<close>: ints and bools are numbers, the rest raises\<close>
  "as_int (PInt i) = Inr i"
| "as_int (PBool b) = Inr (if b then 1 else 0)"
| "as_int v = Inl TypeError"

definition digit_char :: "nat \<Rightarrow> char" where
  "digit_char d =
     (if d = 0 then CHR ''0'' else if d = 1 then CHR ''1'' else if d = 2 then CHR ''2''
      else if d = 3 then CHR ''3'' else if d = 4 then CHR ''4'' else if d = 5 then CHR ''5''
      else if d = 6 then CHR ''6'' else if d = 7 then CHR ''7'' else if d = 8 then CHR ''8''
      else CHR ''9'')"

function str_nat :: "nat \<Rightarrow> string" where
  "str_nat n = (if n < 10 then [digit_char n] else str_nat (n div 10) @ [digit_char (n mod 10)])"
  by pat_completeness auto
termination
  by (relation "measure id") auto

declare str_nat.simps [simp del]

definition str_int :: "int \<Rightarrow> string" where
  "str_int i = (if i < 0 then CHR ''-'' # str_nat (nat (- i)) else str_nat (nat i))"

text \<open>
  What the gateway takes from outside the repository: the base URL of the CRM (an
  environment variable), Python's \<open>repr\<close> of a list or a dict,
  \<open>urllib.parse.urlencode\<close>, and \<open>str.lower\<close> and \<open>str.strip\<close> on text that is
  not ASCII.
\<close>

record ext =
  crm_base_url :: string
  py_repr :: "pyval \<Rightarrow> string"
  urlencode :: "pydict \<Rightarrow> string"
  unicode_lower :: "string \<Rightarrow> string"
  unicode_strip :: "string \<Rightarrow> string"

definition py_lower :: "ext \<Rightarrow> string \<Rightarrow> string" where
  \<comment> \<open>\<open>s.lower()\<close>\<close>
  "py_lower x s = (if is_ascii s then ascii_lower s else unicode_lower x s)"

definition py_strip :: "ext \<Rightarrow> string \<Rightarrow> string" where
  \<comment> \<open>\<open>s.strip()\<close>\<close>
  "py_strip x s = (if is_ascii s then ascii_strip s else unicode_strip x s)"

definition py_str :: "ext \<Rightarrow> pyval \<Rightarrow> string" where
  \<comment> \<open>\<open>str(v)\<close>, also the text an f-string puts for \<open>{v}\<close>\<close>
  "py_str x v =
     (case v of
        PNone \<Rightarrow> ''None''
      | PBool b \<Rightarrow> (if b then ''True'' else ''False'')
      | PInt i \<Rightarrow> str_int i
      | PStr s \<Rightarrow> s
      | _ \<Rightarrow> py_repr x v)"

definition em_dash :: string where
  "em_dash = [char_of (226 :: nat), char_of (128 :: nat), char_of (148 :: nat)]"

section \<open>CRM gateway: token state and authenticated requests\<close>

record crm_state =
  access_token :: pyval
  token_expires_at :: real
  is_authenticating :: bool


record http_request =
  req_method :: string
  req_url :: string
  req_headers :: "(string \<times> string) list"
  req_json :: pyval

text \<open>
  What a request comes back with: the client's timeout exception, any other exception
  (with its text), or a response with its status code and what \<open>response.json()\<close>
  gives (a value, or an exception with its text).
\<close>

datatype http_outcome =
    HttpTimeout
  | HttpFailure string
  | HttpResponse int "string + pyval"

definition url :: "ext \<Rightarrow> string \<Rightarrow> string" where
  "url x path =
     rev (dropWhile (\<lambda>c. c = CHR ''/'') (rev (crm_base_url x))) @ ''/'' @
     dropWhile (\<lambda>c. c = CHR ''/'') path"

definition has_valid_token :: "crm_state \<Rightarrow> real \<Rightarrow> bool" where
  "has_valid_token st now = (access_token st \<noteq> PNone \<and> now < token_expires_at st)"

definition auth_headers :: "ext \<Rightarrow> crm_state \<Rightarrow> (string \<times> string) list" where
  "auth_headers x st =
     (if \<not> truthy (access_token st) then [(''Content-Type'', ''application/json'')]
      else [(''Content-Type'', ''application/json''),
            (''Authorization'', ''Bearer '' @ py_str x (access_token st))])"

definition failure :: "string \<Rightarrow> pyval" where
  "failure msg = PDict [(''success'', PBool False), (''error'', PStr msg)]"

definition crm_request ::
  "ext \<Rightarrow> crm_state \<Rightarrow> (http_request \<Rightarrow> http_outcome) \<Rightarrow> string \<Rightarrow> string \<Rightarrow> pyval
     \<Rightarrow> pyval \<times> http_request list" where
  \<comment> \<open>the result, and the requests sent (none or one)\<close>
  "crm_request x st net endpoint method body =
     (if \<not> truthy (access_token st)
      then (failure ''CRM not authenticated (token missing)'', [])
      else
        let req = \<lparr> req_method = method, req_url = url x endpoint,
                    req_headers = auth_headers x st,
                    req_json = (if method = ''GET'' then PNone else body) \<rparr>
        in (case net req of
              HttpTimeout \<Rightarrow>
                failure (''CRM request timed out '' @ em_dash @ '' server may be unreachable'')
            | HttpFailure msg \<Rightarrow> failure msg
            | HttpResponse status js \<Rightarrow>
                if status = 401
                then failure (''CRM token expired '' @ em_dash @ '' restart agent to refresh'')
                else if status \<ge> 400 then failure (''API error: '' @ str_int status)
                else (case js of Inl msg \<Rightarrow> failure msg | Inr v \<Rightarrow> v),
            [req]))"

section \<open>CRM gateway: hotel-type and meal-plan normalization\<close>

definition normalize_hotel_type :: "ext \<Rightarrow> string \<Rightarrow> string option" where
  "normalize_hotel_type x s =
     (if s = [] then None
      else let lower = py_strip x (py_lower x s) in
        if any_in [''5'', ''five'', ''luxury''] lower then Some ''5 Star''
        else if any_in [''4'', ''four'', ''premium''] lower then Some ''4 Star''
        else if any_in [''3'', ''three'', ''standard''] lower then Some ''3 Star''
        else if any_in [''2'', ''two'', ''budget''] lower then Some ''2 Star''
        else if sublist ''resort'' lower then Some ''Resort''
        else if sublist ''villa'' lower then Some ''Villa''
        else if sublist ''home'' lower \<or> sublist ''stay'' lower then Some ''Homestay''
        else Some s)"

definition normalize_meal_plan :: "ext \<Rightarrow> string \<Rightarrow> string option" where
  "normalize_meal_plan x s =
     (if s = [] then None
      else let lower = py_strip x (py_lower x s) in
        if sublist ''all'' lower \<or> lower = ''ap'' then Some ''AP''
        else if any_in [''half'', ''modified''] lower \<or> lower = ''map'' then Some ''MAP''
        else if any_in [''breakfast'', ''continental''] lower \<or> lower = ''cp'' then Some ''CP''
        else if any_in [''no'', ''european'', ''room only''] lower \<or> lower = ''ep'' then Some ''EP''
        else Some s)"







section \<open>CRM gateway: the three operations\<close>

text \<open>
  An operation returns its result dictionary or raises (\<open>Inl\<close>), together with the
  requests it has sent.
\<close>

definition bnd :: "py_error + 'a \<Rightarrow> ('a \<Rightarrow> py_error + 'b) \<Rightarrow> py_error + 'b" where
  "bnd m f = (case m of Inl e \<Rightarrow> Inl e | Inr v \<Rightarrow> f v)"

definition call_normalize :: "(string \<Rightarrow> string option) \<Rightarrow> pyval \<Rightarrow> py_error + pyval" where
  \<comment> \<open>a normalization function called on a value that need not be a string:
      \<open>not s\<close> answers for a falsy value, \<open>s.lower()\<close> raises on any other non-string\<close>
  "call_normalize f v =
     (if \<not> truthy v then Inr PNone
      else case v of
             PStr s \<Rightarrow> Inr (case f s of None \<Rightarrow> PNone | Some r \<Rightarrow> PStr r)
           | _ \<Rightarrow> Inl AttributeError)"

definition lead_data :: "ext \<Rightarrow> pydict \<Rightarrow> py_error + pydict" where
  "lead_data x params =
     bnd (if truthy (dict_get params ''nights'' PNone)
          then bnd (as_int (py_or (dict_get params ''nights'' PNone) (PInt 0)))
                 (\<lambda>n. Inr (PInt (n + 1)))
          else Inr PNone) (\<lambda>duration_days.
     bnd (call_normalize (normalize_hotel_type x) (dict_get params ''hotel_type'' (PStr ''''))) (\<lambda>hotel.
     bnd (call_normalize (normalize_meal_plan x) (dict_get params ''meal_plan'' (PStr ''''))) (\<lambda>meal.
     Inr [(''name'', dict_get params ''name'' (PStr '''')),
          (''email'', py_or (dict_get params ''email'' PNone) PNone),
          (''mobile'', py_or (dict_get params ''phone'' PNone) PNone),
          (''destination'', py_or (dict_get params ''destination'' PNone) PNone),
          (''journeyStartDate'', py_or (dict_get params ''travel_date'' PNone) PNone),
          (''durationNights'', py_or (dict_get params ''nights'' PNone) PNone),
          (''durationDays'', duration_days),
          (''adults'', dict_get params ''adults'' (PInt 2)),
          (''children'', dict_get params ''children'' (PInt 0)),
          (''infants'', PInt 0),
          (''hotelType'', hotel),
          (''mealPlan'', meal),
          (''specialRequirement'', py_or (dict_get params ''special_requirements'' PNone) PNone),
          (''aiSummary'', py_or (dict_get params ''conversation_summary'' PNone) PNone),
          (''source'', PStr ''Voice Agent''),
          (''sourceType'', PStr ''voice_agent''),
          (''utmSource'', PStr ''sanbot''),
          (''utmMedium'', PStr ''voice''),
          (''utmCampaign'', PStr ''orchestrated-livekit''),
          (''notes'', PStr ''Lead captured via SanBot Voice Agent (Orchestrated Mode).'')])))"

definition drop_none :: "pydict \<Rightarrow> pydict" where
  \<comment> \<open>\<open>{k: v for k, v in lead_data.items() if v is not None}\<close>\<close>
  "drop_none d = filter (\<lambda>kv. snd kv \<noteq> PNone) d"

definition save_lead_payload :: "ext \<Rightarrow> pydict \<Rightarrow> py_error + pydict" where
  "save_lead_payload x params = bnd (lead_data x params) (\<lambda>d. Inr (drop_none d))"

definition save_lead_result :: "ext \<Rightarrow> pydict \<Rightarrow> pyval \<Rightarrow> py_error + pyval" where
  \<comment> \<open>what \<open>save_lead\<close> makes of the result of \<open>_crm_request\<close>\<close>
  "save_lead_result x params result =
     (case result of
        PDict r \<Rightarrow>
          if truthy (py_or (py_or (dict_get r ''success'' PNone) (dict_get r ''id'' PNone))
                       (dict_get r ''lead_id'' PNone))
          then Inr (PDict
            [(''success'', PBool True),
             (''message'', PStr (''Lead saved for '' @ py_str x (dict_get params ''name'' PNone) @ ''!'')),
             (''lead_id'', py_or (py_or (dict_get r ''id'' PNone) (dict_get r ''lead_id'' PNone))
                             (PStr ''saved''))])
          else Inr (PDict
            [(''success'', PBool False),
             (''message'', PStr (''Failed to save lead: '' @
                py_str x (dict_get r ''error'' (PStr ''Unknown error''))))])
      | _ \<Rightarrow> Inl AttributeError)"

definition save_lead ::
  "ext \<Rightarrow> crm_state \<Rightarrow> (http_request \<Rightarrow> http_outcome) \<Rightarrow> pydict
     \<Rightarrow> (py_error + pyval) \<times> http_request list" where
  "save_lead x st net params =
     (case save_lead_payload x params of
        Inl e \<Rightarrow> (Inl e, [])
      | Inr payload \<Rightarrow>
          (case crm_request x st net ''leads'' ''POST'' (PDict payload) of
             (result, sent) \<Rightarrow> (save_lead_result x params result, sent)))"

definition find_packages_query_params :: "ext \<Rightarrow> pydict \<Rightarrow> py_error + pydict" where
  \<comment> \<open>the \<open>query_params\<close> that \<open>find_packages\<close> builds, in insertion order\<close>
  "find_packages_query_params x params =
     (let query = dict_get params ''query'' (PStr '''');
          destination = py_or (dict_get params ''destination'' (PStr '''')) query;
          nights = dict_get params ''nights'' PNone
      in
        bnd (if truthy nights
             then bnd (as_int nights) (\<lambda>n.
                    Inr [(''minNights'', PStr (str_int (max 1 (n - 1)))),
                         (''maxNights'', PStr (str_int (n + 1)))])
             else Inr []) (\<lambda>night_range.
        Inr ((if truthy destination then [(''destination'', destination)] else []) @
             (if truthy (dict_get params ''min_price'' PNone)
              then [(''minPrice'', PStr (py_str x (dict_get params ''min_price'' PNone)))] else []) @
             (if truthy (dict_get params ''max_price'' PNone)
              then [(''maxPrice'', PStr (py_str x (dict_get params ''max_price'' PNone)))] else []) @
             (if truthy (dict_get params ''package_type'' PNone)
              then [(''packageType'', dict_get params ''package_type'' PNone)] else []) @
             night_range @
             [(''limit'', PStr (py_str x (dict_get params ''limit'' (PInt 5))))])))"

fun py_join :: "string \<Rightarrow> string list \<Rightarrow> string" where
  "py_join sep [] = []"
| "py_join sep [p] = p"
| "py_join sep (p # ps) = p @ sep @ py_join sep ps"

definition voice_line :: "ext \<Rightarrow> nat \<Rightarrow> pyval \<Rightarrow> py_error + string" where
  \<comment> \<open>the body of the loop over the first three packages, at index \<open>i\<close>\<close>
  "voice_line x i pkg =
     (case pkg of
        PDict p \<Rightarrow>
          let name = py_or (py_or (dict_get p ''packageName'' PNone) (dict_get p ''package_name'' PNone))
                       (dict_get p ''name'' (PStr ''Package''));
              nights = py_or (py_or (dict_get p ''totalNights'' PNone) (dict_get p ''total_nights'' PNone))
                         (dict_get p ''nights'' (PStr ''?''));
              price = py_or (py_or (dict_get p ''sellingPrice'' PNone) (dict_get p ''selling_price'' PNone))
                        (dict_get p ''price'' (PStr ''?''));
              currency = dict_get p ''currency'' (PStr ''INR'')
          in Inr (str_int (int i + 1) @ ''. '' @ py_str x name @ '' - '' @ py_str x nights @
                  '' nights at '' @ py_str x currency @ '' '' @ py_str x price @ ''.'')
      | _ \<Rightarrow> Inl AttributeError)"

fun voice_lines :: "ext \<Rightarrow> nat \<Rightarrow> pyval list \<Rightarrow> py_error + string list" where
  "voice_lines x i [] = Inr []"
| "voice_lines x i (pkg # pkgs) =
     bnd (voice_line x i pkg) (\<lambda>l. bnd (voice_lines x (Suc i) pkgs) (\<lambda>ls. Inr (l # ls)))"

definition find_packages_result :: "ext \<Rightarrow> pyval \<Rightarrow> py_error + pyval" where
  \<comment> \<open>what \<open>find_packages\<close> makes of the result of \<open>_crm_request\<close>\<close>
  "find_packages_result x result =
     (case result of
        PDict r \<Rightarrow>
          if dict_get r ''success'' PNone = PBool False
          then Inr (PDict
            [(''success'', PBool False),
             (''message'', PStr (''Could not fetch packages: '' @ py_str x (dict_get r ''error'' PNone))),
             (''packages'', PList [])])
          else
            let packages = py_or (py_or (dict_get r ''packages'' PNone) (dict_get r ''data'' PNone)) result;
                package_list = (case packages of PList ps \<Rightarrow> ps | _ \<Rightarrow> []);
                count = length package_list
            in bnd (if count = 0
                    then Inr ''No packages found. Let me suggest some alternatives!''
                    else bnd (voice_lines x 0 (take 3 package_list)) (\<lambda>lines.
                      Inr (py_join '' ''
                        ([''Found '' @ str_int (int count) @ '' package'' @
                            (if count > 1 then ''s'' else '''') @ ''!''] @ lines @
                         (if count > 3 then [''And '' @ str_int (int count - 3) @ '' more options.'']
                          else [])))))
                 (\<lambda>voice_summary. Inr (PDict
                    [(''success'', PBool True),
                     (''count'', PInt (int count)),
                     (''packages'', PList package_list),
                     (''voice_summary'', PStr voice_summary)]))
      | _ \<Rightarrow> Inl AttributeError)"

definition find_packages ::
  "ext \<Rightarrow> crm_state \<Rightarrow> (http_request \<Rightarrow> http_outcome) \<Rightarrow> pydict
     \<Rightarrow> (py_error + pyval) \<times> http_request list" where
  "find_packages x st net params =
     (case find_packages_query_params x params of
        Inl e \<Rightarrow> (Inl e, [])
      | Inr query_params \<Rightarrow>
          (case crm_request x st net
                  (''packages'' @ (if query_params \<noteq> [] then ''?'' @ urlencode x query_params else []))
                  ''GET'' PNone of
             (result, sent) \<Rightarrow> (find_packages_result x result, sent)))"

fun str_items :: "pyval list \<Rightarrow> py_error + string list" where
  \<comment> \<open>the items \<open>str.join\<close> accepts: strings only\<close>
  "str_items [] = Inr []"
| "str_items (PStr s # vs) = bnd (str_items vs) (\<lambda>ss. Inr (s # ss))"
| "str_items (v # vs) = Inl TypeError"

definition inclusions_text :: "pyval \<Rightarrow> py_error + string" where
  \<comment> \<open>\<open>", ".join(inclusions[:4])\<close>, then \<open>" and more"\<close> when there are more than four;
      slicing a dict or a number raises (a dict: KeyError from Python 3.12 on); a string
      is cut and counted by character, which the bytes give for ASCII text\<close>
  "inclusions_text inclusions =
     (case inclusions of
        PList vs \<Rightarrow> bnd (str_items (take 4 vs)) (\<lambda>ss.
          Inr (py_join '', '' ss @ (if length vs > 4 then '' and more'' else '''')))
      | PStr s \<Rightarrow>
          Inr (py_join '', '' (map (\<lambda>c. [c]) (take 4 s)) @ (if length s > 4 then '' and more'' else ''''))
      | _ \<Rightarrow> Inl TypeError)"

definition get_package_details_result :: "ext \<Rightarrow> string \<Rightarrow> pyval \<Rightarrow> py_error + pyval" where
  \<comment> \<open>what \<open>get_package_details\<close> makes of the result of \<open>_crm_request\<close>\<close>
  "get_package_details_result x package_id result =
     (case result of
        PDict r \<Rightarrow>
          if dict_get r ''success'' PNone = PBool False
          then Inr (PDict
            [(''success'', PBool False),
             (''message'', PStr (''Could not find package: '' @ py_str x (dict_get r ''error'' PNone)))])
          else
            (case py_or (dict_get r ''data'' PNone) result of
               PDict p \<Rightarrow>
                 let name = py_or (py_or (dict_get p ''packageName'' PNone) (dict_get p ''package_name'' PNone))
                              (dict_get p ''name'' (PStr ''Unknown''));
                     nights = py_or (py_or (dict_get p ''totalNights'' PNone) (dict_get p ''total_nights'' PNone))
                                (dict_get p ''nights'' (PInt 0))
                 in
                   bnd (if truthy (dict_get p ''totalDays'' PNone) then Inr (dict_get p ''totalDays'' PNone)
                        else if truthy (dict_get p ''total_days'' PNone) then Inr (dict_get p ''total_days'' PNone)
                        else if truthy nights then bnd (as_int nights) (\<lambda>n. Inr (PInt (n + 1)))
                        else Inr (PInt 0)) (\<lambda>days.
                   let price = py_or (py_or (py_or (py_or (dict_get p ''sellingPrice'' PNone)
                                 (dict_get p ''selling_price'' PNone)) (dict_get p ''basePrice'' PNone))
                                 (dict_get p ''base_price'' PNone)) (dict_get p ''price'' (PInt 0));
                       currency = dict_get p ''currency'' (PStr ''INR'');
                       head = py_str x name @ ''. '' @ py_str x nights @ '' nights '' @ py_str x days @
                              '' days starting from '' @ py_str x currency @ '' '' @ py_str x price @
                              '' per person.'';
                       inclusions = dict_get p ''inclusions'' (PList [])
                   in
                     bnd (if truthy inclusions
                          then bnd (inclusions_text inclusions) (\<lambda>inc_text.
                                 Inr [head, ''Includes: '' @ inc_text @ ''.''])
                          else Inr [head]) (\<lambda>desc_parts.
                     Inr (PDict
                       [(''success'', PBool True),
                        (''id'', dict_get p ''id'' (PStr package_id)),
                        (''name'', name),
                        (''description'', dict_get p ''description'' (PStr '''')),
                        (''price'', price),
                        (''currency'', currency),
                        (''nights'', nights),
                        (''days'', days),
                        (''destinations'', dict_get p ''destinations'' (PList [])),
                        (''inclusions'', inclusions),
                        (''exclusions'', dict_get p ''exclusions'' (PList [])),
                        (''voice_description'', PStr (py_join '' '' desc_parts))])))
             | _ \<Rightarrow> Inl AttributeError)
      | _ \<Rightarrow> Inl AttributeError)"

definition get_package_details ::
  "ext \<Rightarrow> crm_state \<Rightarrow> (http_request \<Rightarrow> http_outcome) \<Rightarrow> string
     \<Rightarrow> (py_error + pyval) \<times> http_request list" where
  "get_package_details x st net package_id =
     (case crm_request x st net (''packages/'' @ package_id) ''GET'' PNone of
        (result, sent) \<Rightarrow> (get_package_details_result x package_id result, sent))"

section \<open>CRM gateway: login\<close>

text \<open>
  \<open>_login\<close> runs on one event loop with other callers: a caller runs alone from one
  \<open>await\<close> to the next. Its run is cut at its two suspension points, the login POST
  and the 0.1 s sleep of a waiting caller, and each piece is a function of the shared
  token state and the clock reading. Where a caller stands, and through which
  \<open>return\<close> or \<open>raise\<close> it has left, is its \<open>caller\<close> value.
\<close>

datatype login_error =
    AuthenticationTimeout
  | RequestTimeout
  | RequestFailed string
  | HttpStatus int
  | NoToken
  | Raised py_error

datatype caller =
    Idle
  | Posting
  | Polling nat
  | CacheHit pyval
  | WaiterReturned pyval
  | WaiterTimedOut
  | LeaderReturned pyval
  | LeaderRaised login_error

definition login_request :: "ext \<Rightarrow> string \<Rightarrow> string \<Rightarrow> http_request" where
  \<comment> \<open>the POST of \<open>_login\<close>, with the credentials of the environment\<close>
  "login_request x email password =
     \<lparr> req_method = ''POST'', req_url = url x ''auth/login'',
       req_headers = [(''Content-Type'', ''application/json'')],
       req_json = PDict [(''email'', PStr email), (''password'', PStr password)] \<rparr>"






text \<open>
  The callers together: the token state, the clock, where each caller stands, and the
  callers that have sent the login POST, in order. An event lets one caller run to its
  next suspension point, or lets time pass.
\<close>

record world =
  crm :: crm_state
  clock :: real
  callers :: "caller list"
  posts :: "nat list"









section \<open>Audio tap\<close>

text \<open>
  Bytes are 8-bit characters. The resampler is the audio library's: the tap holds its
  state and calls its constructor, \<open>push\<close> and \<open>flush\<close>. The calls of the tap to the
  framework's \<open>on_playback_finished\<close> are kept in \<open>finished\<close> (the \<open>interrupted\<close> flag
  of each call, in order), the interrupt notifications it schedules are counted. The
  bookkeeping of the framework's base class behind \<open>super().capture_frame\<close> and
  \<open>super().flush\<close> is outside the repository and is left out.
\<close>

type_synonym bytes = string

record audio_frame =
  sample_rate :: nat
  data :: bytes

record 'r resampler_ops =
  rs_new :: "nat \<Rightarrow> 'r"
  rs_push :: "'r \<Rightarrow> audio_frame \<Rightarrow> audio_frame list \<times> 'r"
  rs_flush :: "'r \<Rightarrow> audio_frame list \<times> 'r"

record 'r tap =
  resampler :: "'r option"
  resampler_checked :: bool
  send_queue :: "bytes list"
  closed :: bool
  segment_active :: bool
  finished :: "bool list"
  interrupts :: nat

definition HEYGEN_SAMPLE_RATE :: nat where
  "HEYGEN_SAMPLE_RATE = 24000"

definition FLUSH :: bytes where
  "FLUSH = ''__FLUSH__''"

definition queue_maxsize :: nat where
  "queue_maxsize = 500"

definition try_put :: "bytes list \<Rightarrow> bytes \<Rightarrow> bytes list" where
  \<comment> \<open>\<open>put_nowait\<close> with \<open>QueueFull\<close> passed over\<close>
  "try_put q b = (if length q < queue_maxsize then q @ [b] else q)"

fun put_until_full :: "bytes list \<Rightarrow> bytes list \<Rightarrow> bytes list" where
  \<comment> \<open>a loop of \<open>put_nowait\<close> inside one \<open>try\<close>: the first \<open>QueueFull\<close> ends it\<close>
  "put_until_full q [] = q"
| "put_until_full q (b # bs) =
     (if length q < queue_maxsize then put_until_full (q @ [b]) bs else q)"

definition new_tap :: "'r tap" where
  "new_tap =
     \<lparr> resampler = None, resampler_checked = False, send_queue = [], closed = False,
       segment_active = False, finished = [], interrupts = 0 \<rparr>"

definition capture_frame :: "'r resampler_ops \<Rightarrow> 'r tap \<Rightarrow> audio_frame \<Rightarrow> 'r tap" where
  "capture_frame ops t frame =
     (let t1 = t\<lparr>segment_active := True\<rparr> in
      if closed t1 then t1
      else
        let t2 = (if \<not> resampler_checked t1
                  then t1\<lparr>resampler_checked := True,
                          resampler := (if sample_rate frame \<noteq> HEYGEN_SAMPLE_RATE
                                        then Some (rs_new ops (sample_rate frame))
                                        else resampler t1)\<rparr>
                  else t1)
        in (case resampler t2 of
              Some r \<Rightarrow>
                (case rs_push ops r frame of
                   (fs, r') \<Rightarrow>
                     t2\<lparr>resampler := Some r',
                        send_queue := put_until_full (send_queue t2) (map data fs)\<rparr>)
            | None \<Rightarrow> t2\<lparr>send_queue := put_until_full (send_queue t2) [data frame]\<rparr>))"

definition flush :: "'r resampler_ops \<Rightarrow> 'r tap \<Rightarrow> 'r tap" where
  "flush ops t =
     (let t1 = (if segment_active t
                then t\<lparr>segment_active := False, finished := finished t @ [False]\<rparr>
                else t);
          t2 = (case resampler t1 of
                  Some r \<Rightarrow>
                    (case rs_flush ops r of
                       (fs, r') \<Rightarrow>
                         t1\<lparr>resampler := Some r',
                            send_queue := foldl try_put (send_queue t1) (map data fs)\<rparr>)
                | None \<Rightarrow> t1)
      in t2\<lparr>send_queue := try_put (send_queue t2) FLUSH\<rparr>)"

definition clear_buffer :: "'r tap \<Rightarrow> 'r tap" where
  "clear_buffer t =
     (let t1 = (if segment_active t
                then t\<lparr>segment_active := False, finished := finished t @ [True]\<rparr>
                else t)
      in t1\<lparr>send_queue := [], interrupts := Suc (interrupts t1)\<rparr>)"

definition aclose :: "'r tap \<Rightarrow> 'r tap" where
  "aclose t = t\<lparr>closed := True\<rparr>"

text \<open>The calls the producer makes on the tap, and a run of them.\<close>

datatype tap_call = Capture audio_frame | Flush | ClearBuffer

fun tap_do :: "'r resampler_ops \<Rightarrow> 'r tap \<Rightarrow> tap_call \<Rightarrow> 'r tap" where
  "tap_do ops t (Capture frame) = capture_frame ops t frame"
| "tap_do ops t Flush = flush ops t"
| "tap_do ops t ClearBuffer = clear_buffer t"

definition captures :: "'r resampler_ops \<Rightarrow> 'r tap \<Rightarrow> audio_frame list \<Rightarrow> 'r tap" where
  "captures ops t frames = foldl (capture_frame ops) t frames"

text \<open>
  What the producer expects of a run of calls: one finished-signal at each \<open>flush\<close> or
  \<open>clear_buffer\<close> that ends a started segment, interrupted for \<open>clear_buffer\<close>.
\<close>

fun expected_signals :: "bool \<Rightarrow> tap_call list \<Rightarrow> bool list" where
  "expected_signals active [] = []"
| "expected_signals active (Capture frame # cs) = expected_signals True cs"
| "expected_signals active (Flush # cs) =
     (if active then [False] else []) @ expected_signals False cs"
| "expected_signals active (ClearBuffer # cs) =
     (if active then [True] else []) @ expected_signals False cs"

section \<open>Audio tap: the background sender\<close>

text \<open>
  \<open>_send_loop\<close> reads the queue only between the return of \<open>get()\<close> and the end of its
  drain, with no \<open>await\<close> in between; the producer puts items only while the loop is
  suspended. A run is given by the queue and by the items that arrive during each
  suspension; it ends when the loop waits on an empty queue and nothing arrives any more.
  The calls on the avatar session are kept in order.
\<close>

datatype ws_call = SendAudio string | NotifySpeakEnd

fun drain :: "bytes \<Rightarrow> bytes list \<Rightarrow> bytes \<times> bool \<times> bytes list" where
  \<comment> \<open>the inner \<open>while\<close>: the batch, whether the sentinel was met, and the queue left\<close>
  "drain batch [] = (batch, False, [])"
| "drain batch (extra # q) =
     (if extra = FLUSH then (batch, True, q) else drain (batch @ extra) q)"

definition send_iteration :: "(bytes \<Rightarrow> string) \<Rightarrow> bytes \<Rightarrow> bytes list \<Rightarrow> ws_call list \<times> bytes list" where
  \<comment> \<open>one turn of the outer \<open>while\<close>, for the item \<open>get()\<close> returned and the queue behind it\<close>
  "send_iteration b64encode item q =
     (if item = FLUSH then ([NotifySpeakEnd], q)
      else case drain item q of
             (batch, found, rest) \<Rightarrow>
               (SendAudio (b64encode batch) # (if found then [NotifySpeakEnd] else []), rest))"

function send_loop :: "(bytes \<Rightarrow> string) \<Rightarrow> bytes list \<Rightarrow> bytes list list \<Rightarrow> ws_call list" where
  "send_loop b64encode [] [] = []"
| "send_loop b64encode [] (a # arrivals) = send_loop b64encode a arrivals"
| "send_loop b64encode (item # q) [] =
     fst (send_iteration b64encode item q) @
     send_loop b64encode (snd (send_iteration b64encode item q)) []"
| "send_loop b64encode (item # q) (a # arrivals) =
     fst (send_iteration b64encode item q) @
     send_loop b64encode (snd (send_iteration b64encode item q) @ a) arrivals"
  by pat_completeness auto

lemma drain_rest_length: "length (snd (snd (drain batch q))) \<le> length q"
  by (induction q arbitrary: batch) (auto intro: le_SucI)

lemma send_iteration_rest_length: "length (snd (send_iteration enc item q)) \<le> length q"
  using drain_rest_length [of item q]
  by (auto simp: send_iteration_def split: prod.splits)

termination send_loop
proof (relation "measure (\<lambda>(enc, q, arrivals). length q + length (concat arrivals) + length arrivals)")
  show "wf (measure (\<lambda>(enc, q, arrivals). length q + length (concat arrivals) + length arrivals))"
    by simp
next
  fix enc :: "bytes \<Rightarrow> string" and a :: "bytes list" and arrivals :: "bytes list list"
  show "((enc, a, arrivals), (enc, [], a # arrivals))
          \<in> measure (\<lambda>(enc, q, arrivals). length q + length (concat arrivals) + length arrivals)"
    by simp
next
  fix enc :: "bytes \<Rightarrow> string" and item :: bytes and q :: "bytes list"
  show "((enc, snd (send_iteration enc item q), []), (enc, item # q, []))
          \<in> measure (\<lambda>(enc, q, arrivals). length q + length (concat arrivals) + length arrivals)"
    using send_iteration_rest_length [of enc item q] by simp
next
  fix enc :: "bytes \<Rightarrow> string" and item :: bytes and q a :: "bytes list"
    and arrivals :: "bytes list list"
  show "((enc, snd (send_iteration enc item q) @ a, arrivals), (enc, item # q, a # arrivals))
          \<in> measure (\<lambda>(enc, q, arrivals). length q + length (concat arrivals) + length arrivals)"
    using send_iteration_rest_length [of enc item q] by simp
qed

text \<open>
  The items of a queue, and the calls of the sender with the batches not yet encoded, as
  one sequence of audio bytes and end-of-speech marks.
\<close>

definition captured :: "bytes list \<Rightarrow> (char + unit) list" where
  "captured items = concat (map (\<lambda>item. if item = FLUSH then [Inr ()] else map Inl item) items)"

fun delivered :: "(bytes + unit) list \<Rightarrow> (char + unit) list" where
  "delivered [] = []"
| "delivered (Inl batch # ms) = map Inl batch @ delivered ms"
| "delivered (Inr u # ms) = Inr () # delivered ms"

fun call_of :: "(bytes \<Rightarrow> string) \<Rightarrow> bytes + unit \<Rightarrow> ws_call" where
  "call_of b64encode (Inl batch) = SendAudio (b64encode batch)"
| "call_of b64encode (Inr u) = NotifySpeakEnd"

section \<open>Avatar session: stop\<close>

text \<open>
  The fields of the session that \<open>stop\<close> reads or writes. What \<open>stop\<close> does to the
  outside is kept in order. Of the calls inside \<open>stop\<close>, only closing the audio tap is
  not wrapped in a handler: the tap marks itself closed, cancels its sender and closes
  the wrapped output of the voice pipeline, and an exception of that last call leaves
  \<open>stop\<close> at once, with the session as it was.
\<close>

datatype ws_conn = WsOpen | WsClosed

record 'r session =
  started :: bool
  session_id :: "string option"
  session_token :: "string option"
  ws_url :: "string option"
  audio_tap :: "'r tap option"
  rest_keep_alive_task :: bool
  ws_keep_alive_task :: bool
  ws :: "ws_conn option"
  ws_session :: bool

datatype stop_effect =
    CloseTap
  | CancelWsKeepAlive
  | CancelRestKeepAlive
  | CloseWs
  | CloseWsSession
  | StopRequest "string option" string

datatype stop_error = TapCloseFailed

definition cleanup_ws :: "'r session \<Rightarrow> 'r session \<times> stop_effect list" where
  "cleanup_ws s =
     (s\<lparr>ws := None, ws_session := False\<rparr>,
      (if ws s = Some WsOpen then [CloseWs] else []) @
      (if ws_session s then [CloseWsSession] else []))"

definition stop ::
  "bool \<Rightarrow> 'r session \<Rightarrow> stop_error option \<times> 'r session \<times> stop_effect list" where
  \<comment> \<open>\<open>tap_close_ok\<close>: whether closing the audio tap returns. The result: what \<open>stop\<close>
      raised (\<open>None\<close> when it returned), the session afterwards, what it did\<close>
  "stop tap_close_ok s =
     (if \<not> started s then (None, s, [])
      else
        (case audio_tap s of
           Some t \<Rightarrow>
             if \<not> tap_close_ok
             then (Some TapCloseFailed, s\<lparr>audio_tap := Some (aclose t)\<rparr>, [CloseTap])
             else
               let s1 = s\<lparr>audio_tap := None\<rparr>;
                   e2 = (if ws_keep_alive_task s1 then [CancelWsKeepAlive] else []) @
                        (if rest_keep_alive_task s1 then [CancelRestKeepAlive] else []);
                   s2 = s1\<lparr>ws_keep_alive_task := False, rest_keep_alive_task := False\<rparr>;
                   (s3, e3) = cleanup_ws s2;
                   e4 = (case session_token s3 of
                           Some tok \<Rightarrow>
                             (if tok \<noteq> [] then [StopRequest (session_id s3) tok] else [])
                         | None \<Rightarrow> [])
               in (None,
                   s3\<lparr>session_id := None, session_token := None, ws_url := None,
                      started := False\<rparr>,
                   [CloseTap] @ e2 @ e3 @ e4)
         | None \<Rightarrow>
             let e2 = (if ws_keep_alive_task s then [CancelWsKeepAlive] else []) @
                      (if rest_keep_alive_task s then [CancelRestKeepAlive] else []);
                 s2 = s\<lparr>ws_keep_alive_task := False, rest_keep_alive_task := False\<rparr>;
                 (s3, e3) = cleanup_ws s2;
                 e4 = (case session_token s3 of
                         Some tok \<Rightarrow>
                           (if tok \<noteq> [] then [StopRequest (session_id s3) tok] else [])
                       | None \<Rightarrow> [])
             in (None,
                 s3\<lparr>session_id := None, session_token := None, ws_url := None,
                    started := False\<rparr>,
                 e2 @ e3 @ e4)))"




section \<open>Concrete inputs\<close>

text \<open>An environment and a token state to evaluate the operations at.\<close>

definition example_ext :: ext where
  "example_ext =
     \<lparr> crm_base_url = ''https://crm.tripandevent.com/api'',
       py_repr = (\<lambda>v. ''<repr>''), urlencode = (\<lambda>d. ''<urlencoded>''),
       unicode_lower = (\<lambda>s. s), unicode_strip = (\<lambda>s. s) \<rparr>"

definition example_state :: crm_state where
  "example_state =
     \<lparr> access_token = PStr ''tok'', token_expires_at = 3000, is_authenticating = False \<rparr>"


section \<open>Properties of the normalization\<close>











section \<open>Properties of the CRM gateway\<close>

lemma str_nat_small: "n < 10 \<Longrightarrow> str_nat n = [digit_char n]"
  by (simp add: str_nat.simps)

lemma str_nat_big: "\<not> n < 10 \<Longrightarrow> str_nat n = str_nat (n div 10) @ [digit_char (n mod 10)]"
  by (subst str_nat.simps) simp

lemmas eval_defs =
  find_packages_def find_packages_query_params_def find_packages_result_def bnd_def
  dict_get_def py_or_def py_str_def str_int_def str_nat_small str_nat_big digit_char_def
  crm_request_def example_state_def Let_def save_lead_def save_lead_payload_def lead_data_def
  call_normalize_def drop_none_def save_lead_result_def get_package_details_def
  get_package_details_result_def voice_line_def inclusions_text_def failure_def

lemma crm_request_no_token:
  "\<not> truthy (access_token st) \<Longrightarrow>
     crm_request x st net endpoint method body
       = (failure ''CRM not authenticated (token missing)'', [])"
  by (simp add: crm_request_def)

lemma crm_request_sent:
  "req \<in> set (snd (crm_request x st net endpoint method body)) \<Longrightarrow>
     req_method req = method \<and> req_url req = url x endpoint"
  by (auto simp: crm_request_def Let_def split: if_splits)

lemma save_lead_sent:
  "req \<in> set (snd (save_lead x st net params)) \<Longrightarrow>
     req_method req = ''POST'' \<and> req_url req = url x ''leads''"
  apply (auto simp: save_lead_def split: sum.splits prod.splits)
   apply (metis crm_request_sent snd_conv)
  apply (metis crm_request_sent snd_conv)
  done

lemma find_packages_sent:
  "req \<in> set (snd (find_packages x st net params)) \<Longrightarrow> req_method req = ''GET''"
  apply (auto simp: find_packages_def split: sum.splits prod.splits)
  apply (metis crm_request_sent snd_conv)
  done

lemma get_package_details_sent:
  "req \<in> set (snd (get_package_details x st net package_id)) \<Longrightarrow> req_method req = ''GET''"
  apply (auto simp: get_package_details_def split: sum.splits prod.splits)
  apply (metis crm_request_sent snd_conv)
  done

lemma login_request_not_sent:
  "req \<in> set (snd (save_lead x st net params) @ snd (find_packages x st net params)
            @ snd (get_package_details x st net package_id)) \<Longrightarrow>
   req \<noteq> login_request x email password"
proof
  assume mem: "req \<in> set (snd (save_lead x st net params) @ snd (find_packages x st net params)
            @ snd (get_package_details x st net package_id))"
    and eq: "req = login_request x email password"
  from eq have m: "req_method req = ''POST''" and u: "req_url req = url x ''auth/login''"
    by (simp_all add: login_request_def)
  from mem consider "req \<in> set (snd (save_lead x st net params))"
    | "req \<in> set (snd (find_packages x st net params))"
    | "req \<in> set (snd (get_package_details x st net package_id))" by auto
  then show False
  proof cases
    case 1
    from save_lead_sent [OF 1] u show False by (simp add: url_def)
  next
    case 2
    from find_packages_sent [OF 2] m show False by simp
  next
    case 3
    from get_package_details_sent [OF 3] m show False by simp
  qed
qed

lemma no_token_nothing_sent:
  assumes "\<not> truthy (access_token st)"
  shows "snd (save_lead x st net params) = []"
    and "snd (find_packages x st net params) = []"
    and "snd (get_package_details x st net package_id) = []"
  using assms
  by (simp_all add: save_lead_def find_packages_def get_package_details_def
      crm_request_no_token split: sum.splits)

text \<open>
  Claim C3. With no token cached (\<open>None\<close> or the empty string), \<open>_crm_request\<close>
  returns \<open>{"success": False, "error": "CRM not authenticated (token missing)"}\<close> and
  sends nothing, and so none of the three operations sends anything. In every token
  state, no request sent by \<open>save_lead\<close>, \<open>find_packages\<close> or \<open>get_package_details\<close>
  is the login request: the operations never log in. (They read the token state and
  cannot change it.)
\<close>

theorem runtime_calls_fail_fast_and_never_login:
  "(\<not> truthy (access_token st) \<longrightarrow>
      crm_request x st net endpoint method body
        = (PDict [(''success'', PBool False),
                  (''error'', PStr ''CRM not authenticated (token missing)'')], [])
      \<and> snd (save_lead x st net params) = []
      \<and> snd (find_packages x st net params) = []
      \<and> snd (get_package_details x st net package_id) = [])
   \<and> (\<forall>req \<in> set (snd (save_lead x st net params) @ snd (find_packages x st net params)
                     @ snd (get_package_details x st net package_id)).
         req \<noteq> login_request x email password)"
proof -
  have a: "\<not> truthy (access_token st) \<Longrightarrow>
      crm_request x st net endpoint method body
        = (PDict [(''success'', PBool False),
                  (''error'', PStr ''CRM not authenticated (token missing)'')], [])"
    by (simp add: crm_request_no_token failure_def)
  have b: "\<not> truthy (access_token st) \<Longrightarrow> snd (save_lead x st net params) = []"
    by (rule no_token_nothing_sent)
  have c: "\<not> truthy (access_token st) \<Longrightarrow> snd (find_packages x st net params) = []"
    by (rule no_token_nothing_sent)
  have d: "\<not> truthy (access_token st) \<Longrightarrow> snd (get_package_details x st net package_id) = []"
    by (rule no_token_nothing_sent)
  have e: "\<forall>req \<in> set (snd (save_lead x st net params) @ snd (find_packages x st net params)
                     @ snd (get_package_details x st net package_id)).
         req \<noteq> login_request x email password"
    using login_request_not_sent by blast
  show ?thesis using a b c d e by blast
qed

theorem runtime_calls_fail_fast_and_never_login_witness:
  "\<not> truthy (access_token (example_state\<lparr>access_token := PNone\<rparr>))
   \<and> crm_request example_ext (example_state\<lparr>access_token := PNone\<rparr>) (\<lambda>req. HttpTimeout)
         ''leads'' ''POST'' PNone
       = (PDict [(''success'', PBool False),
                 (''error'', PStr ''CRM not authenticated (token missing)'')], [])
   \<and> snd (save_lead example_ext example_state (\<lambda>req. HttpTimeout) [(''name'', PStr ''Asha'')])
       = [\<lparr> req_method = ''POST'', req_url = ''https://crm.tripandevent.com/api/leads'',
            req_headers = [(''Content-Type'', ''application/json''),
                           (''Authorization'', ''Bearer tok'')],
            req_json = PDict
              [(''name'', PStr ''Asha''), (''adults'', PInt 2), (''children'', PInt 0),
               (''infants'', PInt 0), (''source'', PStr ''Voice Agent''),
               (''sourceType'', PStr ''voice_agent''), (''utmSource'', PStr ''sanbot''),
               (''utmMedium'', PStr ''voice''), (''utmCampaign'', PStr ''orchestrated-livekit''),
               (''notes'', PStr ''Lead captured via SanBot Voice Agent (Orchestrated Mode).'')] \<rparr>]
   \<and> \<lparr> req_method = ''POST'', req_url = ''https://crm.tripandevent.com/api/leads'',
         req_headers = [(''Content-Type'', ''application/json''),
                        (''Authorization'', ''Bearer tok'')],
         req_json = PDict
           [(''name'', PStr ''Asha''), (''adults'', PInt 2), (''children'', PInt 0),
            (''infants'', PInt 0), (''source'', PStr ''Voice Agent''),
            (''sourceType'', PStr ''voice_agent''), (''utmSource'', PStr ''sanbot''),
            (''utmMedium'', PStr ''voice''), (''utmCampaign'', PStr ''orchestrated-livekit''),
            (''notes'', PStr ''Lead captured via SanBot Voice Agent (Orchestrated Mode).'')] \<rparr>
       \<noteq> login_request example_ext ''agent@example.com'' ''secret''"
proof -
  have h: "\<not> truthy (access_token (example_state\<lparr>access_token := PNone\<rparr>))" by simp
  have s: "snd (save_lead example_ext example_state (\<lambda>req. HttpTimeout) [(''name'', PStr ''Asha'')])
       = [\<lparr> req_method = ''POST'', req_url = ''https://crm.tripandevent.com/api/leads'',
            req_headers = [(''Content-Type'', ''application/json''),
                           (''Authorization'', ''Bearer tok'')],
            req_json = PDict
              [(''name'', PStr ''Asha''), (''adults'', PInt 2), (''children'', PInt 0),
               (''infants'', PInt 0), (''source'', PStr ''Voice Agent''),
               (''sourceType'', PStr ''voice_agent''), (''utmSource'', PStr ''sanbot''),
               (''utmMedium'', PStr ''voice''), (''utmCampaign'', PStr ''orchestrated-livekit''),
               (''notes'', PStr ''Lead captured via SanBot Voice Agent (Orchestrated Mode).'')] \<rparr>]"
    by (simp add: eval_defs url_def auth_headers_def example_ext_def)
  from runtime_calls_fail_fast_and_never_login
    [of "example_state\<lparr>access_token := PNone\<rparr>" example_ext "\<lambda>req. HttpTimeout" "''leads''"
      "''POST''" PNone "[(''name'', PStr ''Asha'')]" "''42''"] h
  have a: "crm_request example_ext (example_state\<lparr>access_token := PNone\<rparr>) (\<lambda>req. HttpTimeout)
         ''leads'' ''POST'' PNone
       = (PDict [(''success'', PBool False),
                 (''error'', PStr ''CRM not authenticated (token missing)'')], [])"
    by blast
  from runtime_calls_fail_fast_and_never_login
    [of example_state example_ext "\<lambda>req. HttpTimeout" "''leads''" "''POST''" PNone
      "[(''name'', PStr ''Asha'')]" "''42''" "''agent@example.com''" "''secret''"]
  have b: "\<forall>req \<in> set (snd (save_lead example_ext example_state (\<lambda>req. HttpTimeout)
                              [(''name'', PStr ''Asha'')])).
             req \<noteq> login_request example_ext ''agent@example.com'' ''secret''"
    by simp
  show ?thesis using h a s b by simp
qed

text \<open>
  Claim C10. \<open>_crm_request\<close> looks only at whether a token is cached. With a token
  cached whose expiry time has passed, it still sends the request, with that token as
  the bearer header; the result is what the response gives (a 401 becomes the
  token-expired failure). The expiry time has no influence on \<open>_crm_request\<close> at all.
\<close>

theorem expired_token_is_still_sent:
  "(truthy (access_token st) \<and> token_expires_at st \<le> now \<longrightarrow>
      \<not> has_valid_token st now
      \<and> (\<exists>req. snd (crm_request x st net endpoint method body) = [req]
            \<and> req_url req = url x endpoint
            \<and> map_of (req_headers req) ''Authorization''
                = Some (''Bearer '' @ py_str x (access_token st))
            \<and> (\<forall>js. net req = HttpResponse 401 js \<longrightarrow>
                 fst (crm_request x st net endpoint method body)
                   = PDict [(''success'', PBool False),
                            (''error'', PStr (''CRM token expired '' @ em_dash @
                                             '' restart agent to refresh''))])
            \<and> (\<forall>status v. net req = HttpResponse status (Inr v) \<and> status < 400 \<longrightarrow>
                 fst (crm_request x st net endpoint method body) = v)))
   \<and> crm_request x (st\<lparr>token_expires_at := t\<rparr>) net endpoint method body
       = crm_request x st net endpoint method body"
  by (auto simp: crm_request_def has_valid_token_def auth_headers_def Let_def failure_def)

theorem expired_token_is_still_sent_witness:
  "truthy (access_token example_state) \<and> token_expires_at example_state \<le> 4000
   \<and> \<not> has_valid_token example_state 4000
   \<and> snd (crm_request example_ext example_state (\<lambda>req. HttpResponse 401 (Inl []))
            ''packages/42'' ''GET'' PNone)
       = [\<lparr> req_method = ''GET'', req_url = ''https://crm.tripandevent.com/api/packages/42'',
            req_headers = [(''Content-Type'', ''application/json''),
                           (''Authorization'', ''Bearer tok'')],
            req_json = PNone \<rparr>]
   \<and> fst (crm_request example_ext example_state (\<lambda>req. HttpResponse 401 (Inl []))
            ''packages/42'' ''GET'' PNone)
       = PDict [(''success'', PBool False),
                (''error'', PStr (''CRM token expired '' @ em_dash @ '' restart agent to refresh''))]"
proof -
  have h: "truthy (access_token example_state) \<and> token_expires_at example_state \<le> 4000"
    by (simp add: example_state_def)
  have s: "snd (crm_request example_ext example_state (\<lambda>req. HttpResponse 401 (Inl []))
            ''packages/42'' ''GET'' PNone)
       = [\<lparr> req_method = ''GET'', req_url = ''https://crm.tripandevent.com/api/packages/42'',
            req_headers = [(''Content-Type'', ''application/json''),
                           (''Authorization'', ''Bearer tok'')],
            req_json = PNone \<rparr>]"
    by (simp add: eval_defs url_def auth_headers_def example_ext_def)
  from expired_token_is_still_sent
    [of example_state 4000 example_ext "\<lambda>req. HttpResponse 401 (Inl [])" "''packages/42''"
      "''GET''" PNone] h
  have a: "\<not> has_valid_token example_state 4000"
    and b: "\<exists>req. snd (crm_request example_ext example_state (\<lambda>req. HttpResponse 401 (Inl []))
                    ''packages/42'' ''GET'' PNone) = [req]
            \<and> (\<forall>js. (\<lambda>req. HttpResponse 401 (Inl [])) req = HttpResponse 401 js \<longrightarrow>
                 fst (crm_request example_ext example_state (\<lambda>req. HttpResponse 401 (Inl []))
                        ''packages/42'' ''GET'' PNone)
                   = PDict [(''success'', PBool False),
                            (''error'', PStr (''CRM token expired '' @ em_dash @
                                             '' restart agent to refresh''))])"
    by blast+
  from b have c: "fst (crm_request example_ext example_state (\<lambda>req. HttpResponse 401 (Inl []))
            ''packages/42'' ''GET'' PNone)
       = PDict [(''success'', PBool False),
                (''error'', PStr (''CRM token expired '' @ em_dash @ '' restart agent to refresh''))]"
    by blast
  show ?thesis using h a s c by blast
qed

lemma asha_payload:
  "save_lead_payload x [(''name'', PStr ''Asha'')] =
     Inr [(''name'', PStr ''Asha''), (''adults'', PInt 2), (''children'', PInt 0),
          (''infants'', PInt 0), (''source'', PStr ''Voice Agent''),
          (''sourceType'', PStr ''voice_agent''), (''utmSource'', PStr ''sanbot''),
          (''utmMedium'', PStr ''voice''), (''utmCampaign'', PStr ''orchestrated-livekit''),
          (''notes'', PStr ''Lead captured via SanBot Voice Agent (Orchestrated Mode).'')]"
  by (simp add: save_lead_payload_def lead_data_def bnd_def dict_get_def py_or_def
      call_normalize_def drop_none_def)

lemma asha_payload_empty_fields:
  "save_lead_payload x [(''name'', PStr ''Asha''), (''phone'', PStr ''''), (''email'', PStr ''''),
        (''conversation_summary'', PStr '''')] = save_lead_payload x [(''name'', PStr ''Asha'')]"
  by (simp add: save_lead_payload_def lead_data_def bnd_def dict_get_def py_or_def
      call_normalize_def drop_none_def)

lemma payload_no_none:
  "save_lead_payload x params = Inr payload \<Longrightarrow> PNone \<notin> snd ` set payload"
  by (auto simp: save_lead_payload_def bnd_def drop_none_def split: sum.splits)

lemma save_lead_result_dict:
  "\<exists>d. save_lead_result x params (PDict r) = Inr (PDict d)
       \<and> dict_get d ''success'' PNone
           = PBool (truthy (dict_get r ''success'' PNone) \<or> truthy (dict_get r ''id'' PNone)
                    \<or> truthy (dict_get r ''lead_id'' PNone))"
  by (auto simp: save_lead_result_def py_or_def dict_get_def)

lemma dict_get_absent: "k \<notin> fst ` set r \<Longrightarrow> dict_get r k dflt = dflt"
  by (simp add: dict_get_def map_of_eq_None_iff [THEN iffD2])

lemma save_lead_result_absent:
  assumes "''success'' \<notin> fst ` set r" "''id'' \<notin> fst ` set r" "''lead_id'' \<notin> fst ` set r"
  shows "\<exists>msg. save_lead_result x params (PDict r)
           = Inr (PDict [(''success'', PBool False), (''message'', PStr msg)])"
  using assms by (simp add: save_lead_result_def py_or_def dict_get_absent)

lemma save_lead_ok_response:
  assumes "truthy (access_token st)" "save_lead_payload x params = Inr payload"
    "\<forall>req. net req = HttpResponse 200 (Inr (PDict r))"
  shows "fst (save_lead x st net params) = save_lead_result x params (PDict r)"
  using assms by (simp add: save_lead_def crm_request_def Let_def)

text \<open>
  Claim C5, as amended. \<open>save_lead\<close> with only \<open>name="Asha"\<close> (the other fields absent,
  or empty strings) sends the ten-field payload below, and no payload ever holds a
  \<open>None\<close>. For a response that is a JSON object, \<open>save_lead\<close> reports success if and only
  if the value under \<open>success\<close>, \<open>id\<close> or \<open>lead_id\<close> is truthy; when all three keys are
  absent it reports failure, also for a response with status 200.
\<close>

theorem save_lead_payload_and_success:
  "save_lead_payload x [(''name'', PStr ''Asha'')] =
     Inr [(''name'', PStr ''Asha''), (''adults'', PInt 2), (''children'', PInt 0),
          (''infants'', PInt 0), (''source'', PStr ''Voice Agent''),
          (''sourceType'', PStr ''voice_agent''), (''utmSource'', PStr ''sanbot''),
          (''utmMedium'', PStr ''voice''), (''utmCampaign'', PStr ''orchestrated-livekit''),
          (''notes'', PStr ''Lead captured via SanBot Voice Agent (Orchestrated Mode).'')]
   \<and> save_lead_payload x [(''name'', PStr ''Asha''), (''phone'', PStr ''''), (''email'', PStr ''''),
        (''conversation_summary'', PStr '''')] = save_lead_payload x [(''name'', PStr ''Asha'')]
   \<and> (\<forall>payload. save_lead_payload x params = Inr payload \<longrightarrow> PNone \<notin> snd ` set payload)
   \<and> (\<exists>d. save_lead_result x params (PDict r) = Inr (PDict d)
         \<and> dict_get d ''success'' PNone
             = PBool (truthy (dict_get r ''success'' PNone) \<or> truthy (dict_get r ''id'' PNone)
                      \<or> truthy (dict_get r ''lead_id'' PNone)))
   \<and> (''success'' \<notin> fst ` set r \<and> ''id'' \<notin> fst ` set r \<and> ''lead_id'' \<notin> fst ` set r \<longrightarrow>
        (\<exists>msg. save_lead_result x params (PDict r)
           = Inr (PDict [(''success'', PBool False), (''message'', PStr msg)])))
   \<and> (truthy (access_token st) \<and> (\<exists>payload. save_lead_payload x params = Inr payload)
        \<and> (\<forall>req. net req = HttpResponse 200 (Inr (PDict r))) \<longrightarrow>
        fst (save_lead x st net params) = save_lead_result x params (PDict r))"
proof (intro conjI)
  show "\<forall>payload. save_lead_payload x params = Inr payload \<longrightarrow> PNone \<notin> snd ` set payload"
    by (intro allI impI) (rule payload_no_none)
  show "''success'' \<notin> fst ` set r \<and> ''id'' \<notin> fst ` set r \<and> ''lead_id'' \<notin> fst ` set r \<longrightarrow>
        (\<exists>msg. save_lead_result x params (PDict r)
           = Inr (PDict [(''success'', PBool False), (''message'', PStr msg)]))"
    by (intro impI, elim conjE) (rule save_lead_result_absent)
  show "truthy (access_token st) \<and> (\<exists>payload. save_lead_payload x params = Inr payload)
        \<and> (\<forall>req. net req = HttpResponse 200 (Inr (PDict r))) \<longrightarrow>
        fst (save_lead x st net params) = save_lead_result x params (PDict r)"
    by (intro impI, elim conjE exE) (rule save_lead_ok_response)
qed (rule asha_payload asha_payload_empty_fields save_lead_result_dict)+

theorem save_lead_payload_and_success_witness:
  "PNone \<notin> snd ` set
      [(''name'', PStr ''Asha''), (''adults'', PInt 2), (''children'', PInt 0),
       (''infants'', PInt 0), (''source'', PStr ''Voice Agent''),
       (''sourceType'', PStr ''voice_agent''), (''utmSource'', PStr ''sanbot''),
       (''utmMedium'', PStr ''voice''), (''utmCampaign'', PStr ''orchestrated-livekit''),
       (''notes'', PStr ''Lead captured via SanBot Voice Agent (Orchestrated Mode).'')]
   \<and> fst (save_lead example_ext example_state
             (\<lambda>req. HttpResponse 200 (Inr (PDict [(''status'', PStr ''ok'')])))
             [(''name'', PStr ''Asha'')])
       = Inr (PDict [(''success'', PBool False),
                     (''message'', PStr ''Failed to save lead: Unknown error'')])
   \<and> fst (save_lead example_ext example_state
             (\<lambda>req. HttpResponse 200 (Inr (PDict [(''status'', PStr ''ok'')])))
             [(''name'', PStr ''Asha'')])
       = save_lead_result example_ext [(''name'', PStr ''Asha'')] (PDict [(''status'', PStr ''ok'')])"
proof -
  let ?r = "[(''status'', PStr ''ok'')]"
  let ?net = "\<lambda>req :: http_request. HttpResponse 200 (Inr (PDict ?r))"
  let ?params = "[(''name'', PStr ''Asha'')]"
  note t = save_lead_payload_and_success
    [where x = example_ext and params = ?params and r = ?r and st = example_state and net = ?net]
  have h1: "''success'' \<notin> fst ` set ?r \<and> ''id'' \<notin> fst ` set ?r \<and> ''lead_id'' \<notin> fst ` set ?r"
    by simp
  have h2: "truthy (access_token example_state)" by (simp add: example_state_def)
  have h3: "\<forall>req. ?net req = HttpResponse 200 (Inr (PDict ?r))" by simp
  note p = t [THEN conjunct1]
  have a: "PNone \<notin> snd ` set
      [(''name'', PStr ''Asha''), (''adults'', PInt 2), (''children'', PInt 0),
       (''infants'', PInt 0), (''source'', PStr ''Voice Agent''),
       (''sourceType'', PStr ''voice_agent''), (''utmSource'', PStr ''sanbot''),
       (''utmMedium'', PStr ''voice''), (''utmCampaign'', PStr ''orchestrated-livekit''),
       (''notes'', PStr ''Lead captured via SanBot Voice Agent (Orchestrated Mode).'')]"
    by (rule t [THEN conjunct2, THEN conjunct2, THEN conjunct1, THEN spec, THEN mp, OF p])
  have pre: "truthy (access_token example_state)
      \<and> (\<exists>payload. save_lead_payload example_ext ?params = Inr payload)
      \<and> (\<forall>req. ?net req = HttpResponse 200 (Inr (PDict ?r)))"
    by (intro conjI exI h2 h3) (rule p)
  have b: "fst (save_lead example_ext example_state ?net ?params)
      = save_lead_result example_ext ?params (PDict ?r)"
    by (rule t [THEN conjunct2, THEN conjunct2, THEN conjunct2, THEN conjunct2, THEN conjunct2,
          THEN mp, OF pre])
  have c: "save_lead_result example_ext ?params (PDict ?r)
      = Inr (PDict [(''success'', PBool False),
                    (''message'', PStr ''Failed to save lead: Unknown error'')])"
    by (simp add: save_lead_result_def py_or_def dict_get_def py_str_def)
  show ?thesis by (intro conjI a b [unfolded c] b)
qed

text \<open>
  The claim as first stated fails at a response that contains the key \<open>success\<close> with
  the value \<open>False\<close>: the key is there, and \<open>save_lead\<close> reports failure.
\<close>

theorem save_lead_success_key_counterexample:
  "''success'' \<in> fst ` set [(''success'', PBool False)]
   \<and> fst (save_lead example_ext example_state
             (\<lambda>req. HttpResponse 200 (Inr (PDict [(''success'', PBool False)])))
             [(''name'', PStr ''Asha'')])
       = Inr (PDict [(''success'', PBool False),
                     (''message'', PStr ''Failed to save lead: Unknown error'')])"
  by (simp add: save_lead_def asha_payload crm_request_def example_state_def
      save_lead_result_def py_or_def dict_get_def py_str_def Let_def)

lemma nights_range:
  assumes "dict_get params ''nights'' PNone = PInt n" "0 < n"
  shows "\<exists>qp. find_packages_query_params x params = Inr qp
     \<and> map_of qp ''minNights'' = Some (PStr (str_int (max 1 (n - 1))))
     \<and> map_of qp ''maxNights'' = Some (PStr (str_int (n + 1)))"
  using assms by (simp add: find_packages_query_params_def bnd_def Let_def)

lemma find_packages_url:
  assumes "find_packages_query_params x params = Inr qp" "truthy (access_token st)"
  shows "map req_url (snd (find_packages x st net params))
           = [url x (''packages?'' @ urlencode x qp)]"
proof -
  from assms(1) have "qp \<noteq> []"
    by (auto simp: find_packages_query_params_def bnd_def Let_def split: sum.splits)
  with assms show ?thesis
    by (simp add: find_packages_def crm_request_def Let_def split: prod.splits)
qed

text \<open>
  Claim C7, as amended. For a positive number of nights \<open>n\<close>, \<open>find_packages\<close> puts
  \<open>minNights = str(max(1, n - 1))\<close> and \<open>maxNights = str(n + 1)\<close> into the query
  parameters that it sends: the range is \<open>n - 1\<close> to \<open>n + 1\<close> from two nights on, and
  1 to 2 for one night.
\<close>

theorem find_packages_night_range:
  "dict_get params ''nights'' PNone = PInt n \<and> 0 < n \<longrightarrow>
     (\<exists>qp. find_packages_query_params x params = Inr qp
        \<and> map_of qp ''minNights'' = Some (PStr (str_int (max 1 (n - 1))))
        \<and> map_of qp ''maxNights'' = Some (PStr (str_int (n + 1)))
        \<and> (2 \<le> n \<longrightarrow> map_of qp ''minNights'' = Some (PStr (str_int (n - 1))))
        \<and> (truthy (access_token st) \<longrightarrow>
             map req_url (snd (find_packages x st net params))
               = [url x (''packages?'' @ urlencode x qp)]))"
proof (intro impI, elim conjE)
  assume d: "dict_get params ''nights'' PNone = PInt n" and pos: "0 < n"
  from nights_range [OF d pos, of x] obtain qp
    where q: "find_packages_query_params x params = Inr qp"
      and mn: "map_of qp ''minNights'' = Some (PStr (str_int (max 1 (n - 1))))"
      and mx: "map_of qp ''maxNights'' = Some (PStr (str_int (n + 1)))"
    by (elim exE conjE)
  have m2: "2 \<le> n \<longrightarrow> map_of qp ''minNights'' = Some (PStr (str_int (n - 1)))"
  proof
    assume "2 \<le> n"
    then have "max 1 (n - 1) = n - 1" by simp
    with mn show "map_of qp ''minNights'' = Some (PStr (str_int (n - 1)))" by simp
  qed
  have u: "truthy (access_token st) \<longrightarrow>
      map req_url (snd (find_packages x st net params)) = [url x (''packages?'' @ urlencode x qp)]"
    by (intro impI) (rule find_packages_url [OF q])
  show "\<exists>qp. find_packages_query_params x params = Inr qp
        \<and> map_of qp ''minNights'' = Some (PStr (str_int (max 1 (n - 1))))
        \<and> map_of qp ''maxNights'' = Some (PStr (str_int (n + 1)))
        \<and> (2 \<le> n \<longrightarrow> map_of qp ''minNights'' = Some (PStr (str_int (n - 1))))
        \<and> (truthy (access_token st) \<longrightarrow>
             map req_url (snd (find_packages x st net params))
               = [url x (''packages?'' @ urlencode x qp)])"
    by (intro exI [of _ qp] conjI q mn mx m2 u)
qed

theorem find_packages_night_range_witness:
  "dict_get [(''query'', PStr ''Goa''), (''nights'', PInt 5)] ''nights'' PNone = PInt 5
   \<and> (0::int) < 5 \<and> (2::int) \<le> 5 \<and> truthy (access_token example_state)
   \<and> find_packages_query_params example_ext [(''query'', PStr ''Goa''), (''nights'', PInt 5)]
       = Inr [(''destination'', PStr ''Goa''), (''minNights'', PStr ''4''),
              (''maxNights'', PStr ''6''), (''limit'', PStr ''5'')]
   \<and> (\<exists>qp. find_packages_query_params example_ext [(''query'', PStr ''Goa''), (''nights'', PInt 5)]
               = Inr qp
         \<and> map_of qp ''minNights'' = Some (PStr ''4'')
         \<and> map_of qp ''maxNights'' = Some (PStr ''6'')
         \<and> map req_url (snd (find_packages example_ext example_state (\<lambda>req. HttpTimeout)
               [(''query'', PStr ''Goa''), (''nights'', PInt 5)]))
             = [url example_ext (''packages?'' @ urlencode example_ext qp)])"
proof -
  let ?params = "[(''query'', PStr ''Goa''), (''nights'', PInt 5)]"
  have h1: "dict_get ?params ''nights'' PNone = PInt 5 \<and> (0::int) < 5"
    by (simp add: dict_get_def)
  have h2: "truthy (access_token example_state)" by (simp add: example_state_def)
  have e: "find_packages_query_params example_ext ?params
       = Inr [(''destination'', PStr ''Goa''), (''minNights'', PStr ''4''),
              (''maxNights'', PStr ''6''), (''limit'', PStr ''5'')]"
    by (simp add: eval_defs)
  have s4: "str_int (max 1 (5 - 1)) = ''4''" and s4': "str_int (5 - 1) = ''4''"
    and s6: "str_int (5 + 1) = ''6''"
    by (simp_all add: str_int_def str_nat_small digit_char_def)
  from find_packages_night_range
    [of ?params 5 example_ext example_state "\<lambda>req. HttpTimeout", THEN mp, OF h1]
  obtain qp where q: "find_packages_query_params example_ext ?params = Inr qp"
    and mn: "map_of qp ''minNights'' = Some (PStr (str_int (max 1 (5 - 1))))"
    and mx: "map_of qp ''maxNights'' = Some (PStr (str_int (5 + 1)))"
    and u: "truthy (access_token example_state) \<longrightarrow>
             map req_url (snd (find_packages example_ext example_state (\<lambda>req. HttpTimeout) ?params))
               = [url example_ext (''packages?'' @ urlencode example_ext qp)]"
    by (elim exE conjE)
  have r: "find_packages_query_params example_ext ?params = Inr qp
         \<and> map_of qp ''minNights'' = Some (PStr ''4'')
         \<and> map_of qp ''maxNights'' = Some (PStr ''6'')
         \<and> map req_url (snd (find_packages example_ext example_state (\<lambda>req. HttpTimeout) ?params))
             = [url example_ext (''packages?'' @ urlencode example_ext qp)]"
    using q mn mx u [THEN mp, OF h2] unfolding s4 s6 by (intro conjI)
  have five: "(0::int) < 5 \<and> (2::int) \<le> 5" by simp
  show ?thesis
    by (intro conjI exI [of _ qp] h1 [THEN conjunct1] five [THEN conjunct1]
        five [THEN conjunct2] h2 e r [THEN conjunct1] r [THEN conjunct2, THEN conjunct1]
        r [THEN conjunct2, THEN conjunct2, THEN conjunct1]
        r [THEN conjunct2, THEN conjunct2, THEN conjunct2])
qed

text \<open>
  The claim as first stated fails at one night: \<open>minNights\<close> is \<open>"1"\<close>, not
  \<open>str(1 - 1) = "0"\<close>.
\<close>

theorem find_packages_one_night_counterexample:
  "find_packages_query_params example_ext [(''nights'', PInt 1)]
     = Inr [(''minNights'', PStr ''1''), (''maxNights'', PStr ''2''), (''limit'', PStr ''5'')]
   \<and> str_int (1 - 1) = ''0''"
  by (simp add: eval_defs)

text \<open>
  Claim C4 fails on the code. With a token cached and a response of status 200 whose
  JSON body is an array, \<open>find_packages\<close> and \<open>save_lead\<close> raise \<open>AttributeError\<close> at
  \<open>result.get("success")\<close>; and \<open>get_package_details\<close> raises \<open>TypeError\<close> at
  \<open>nights + 1\<close> for a package whose \<open>nights\<close> is a string. The request has been sent
  in each case.
\<close>

theorem gateway_raises_on_unexpected_body:
  "find_packages example_ext example_state
      (\<lambda>req. HttpResponse 200 (Inr (PList [PDict [(''name'', PStr ''Goa Beach'')]])))
      [(''query'', PStr ''Goa'')]
     = (Inl AttributeError,
        [\<lparr> req_method = ''GET'',
           req_url = ''https://crm.tripandevent.com/api/packages?<urlencoded>'',
           req_headers = [(''Content-Type'', ''application/json''),
                          (''Authorization'', ''Bearer tok'')],
           req_json = PNone \<rparr>])
   \<and> fst (save_lead example_ext example_state (\<lambda>req. HttpResponse 200 (Inr (PList [])))
            [(''name'', PStr ''Asha'')]) = Inl AttributeError
   \<and> fst (get_package_details example_ext example_state
            (\<lambda>req. HttpResponse 200
               (Inr (PDict [(''name'', PStr ''Goa''), (''nights'', PStr ''3'')]))) ''42'')
       = Inl TypeError"
  by (simp add: eval_defs url_def auth_headers_def example_ext_def)

text \<open>
  What does hold: \<open>_crm_request\<close> itself returns a value for every outcome of the
  request, and each failure it reports (no token, timeout, connection error, status 400
  and above) reaches the caller of the three operations as a result with
  \<open>success: False\<close> and a message.
\<close>

lemma crm_request_failure_cases:
  "fst (crm_request x st net endpoint method body) = failure msg \<Longrightarrow>
     save_lead_result x params (fst (crm_request x st net endpoint method body))
       = Inr (PDict [(''success'', PBool False),
                     (''message'', PStr (''Failed to save lead: '' @ msg))])
   \<and> find_packages_result x (fst (crm_request x st net endpoint method body))
       = Inr (PDict [(''success'', PBool False),
                     (''message'', PStr (''Could not fetch packages: '' @ msg)),
                     (''packages'', PList [])])
   \<and> get_package_details_result x package_id (fst (crm_request x st net endpoint method body))
       = Inr (PDict [(''success'', PBool False),
                     (''message'', PStr (''Could not find package: '' @ msg))])"
  by (simp add: failure_def save_lead_result_def find_packages_result_def
      get_package_details_result_def dict_get_def py_or_def py_str_def)

lemma crm_request_failure_outcomes:
  assumes "truthy (access_token st)"
    and "net req = HttpTimeout \<or> (\<exists>m. net req = HttpFailure m)
         \<or> (\<exists>status js. net req = HttpResponse status js \<and> 400 \<le> status)"
    and "req = \<lparr> req_method = method, req_url = url x endpoint,
                 req_headers = auth_headers x st,
                 req_json = (if method = ''GET'' then PNone else body) \<rparr>"
  shows "\<exists>msg. fst (crm_request x st net endpoint method body) = failure msg"
  using assms by (auto simp: crm_request_def Let_def)

section \<open>Properties of the audio tap\<close>

lemma capture_frame_signals:
  "segment_active (capture_frame ops t frame)
   \<and> finished (capture_frame ops t frame) = finished t"
  by (simp add: capture_frame_def Let_def split: option.splits prod.splits)

lemma captures_signals:
  "frames \<noteq> [] \<Longrightarrow>
     segment_active (captures ops t frames) \<and> finished (captures ops t frames) = finished t"
proof (induction frames arbitrary: t rule: rev_induct)
  case Nil
  then show ?case by simp
next
  case (snoc f fs)
  show ?case
  proof (cases "fs = []")
    case True
    then show ?thesis by (simp add: captures_def capture_frame_signals)
  next
    case False
    with snoc.IH [of t] show ?thesis by (simp add: captures_def capture_frame_signals)
  qed
qed

lemma flush_signals:
  "finished (flush ops t) = finished t @ (if segment_active t then [False] else [])
   \<and> \<not> segment_active (flush ops t)"
  by (simp add: flush_def Let_def split: option.splits prod.splits)

lemma clear_buffer_signals:
  "finished (clear_buffer t) = finished t @ (if segment_active t then [True] else [])
   \<and> \<not> segment_active (clear_buffer t)"
  by (simp add: clear_buffer_def Let_def)

lemma tap_run_signals:
  "finished (foldl (tap_do ops) t calls) = finished t @ expected_signals (segment_active t) calls"
proof (induction calls arbitrary: t)
  case Nil
  then show ?case by simp
next
  case (Cons c cs)
  show ?case
  proof (cases c)
    case (Capture frame)
    then show ?thesis using Cons.IH [of "capture_frame ops t frame"]
      by (simp add: capture_frame_signals)
  next
    case Flush
    then show ?thesis using Cons.IH [of "flush ops t"] by (simp add: flush_signals)
  next
    case ClearBuffer
    then show ?thesis using Cons.IH [of "clear_buffer t"] by (simp add: clear_buffer_signals)
  qed
qed

text \<open>
  Claim C1. After one or more \<open>capture_frame\<close> calls, \<open>flush\<close> makes exactly one call
  of \<open>on_playback_finished\<close>, with \<open>interrupted=False\<close>, and \<open>clear_buffer\<close> exactly
  one, with \<open>interrupted=True\<close>; either leaves no segment active, so that a second
  \<open>flush\<close> or \<open>clear_buffer\<close> makes no call. With no segment active, \<open>flush\<close> and
  \<open>clear_buffer\<close> make no call. Over any run of calls on the tap, the calls of
  \<open>on_playback_finished\<close> are one for each segment ended, in order.
\<close>

theorem one_finished_signal_per_segment:
  "(frames \<noteq> [] \<longrightarrow>
      finished (flush ops (captures ops t frames)) = finished t @ [False]
      \<and> finished (clear_buffer (captures ops t frames)) = finished t @ [True]
      \<and> finished (flush ops (flush ops (captures ops t frames))) = finished t @ [False]
      \<and> finished (clear_buffer (flush ops (captures ops t frames))) = finished t @ [False]
      \<and> finished (flush ops (clear_buffer (captures ops t frames))) = finished t @ [True]
      \<and> finished (clear_buffer (clear_buffer (captures ops t frames))) = finished t @ [True])
   \<and> (\<not> segment_active t \<longrightarrow>
        finished (flush ops t) = finished t \<and> finished (clear_buffer t) = finished t)
   \<and> finished (foldl (tap_do ops) t calls)
       = finished t @ expected_signals (segment_active t) calls"
  using captures_signals [of frames ops t] tap_run_signals [of ops t calls]
  by (simp add: flush_signals clear_buffer_signals)

theorem one_finished_signal_per_segment_witness:
  "[\<lparr>sample_rate = 24000, data = ''ab''\<rparr>, \<lparr>sample_rate = 24000, data = ''cd''\<rparr>] \<noteq> []
   \<and> \<not> segment_active (new_tap :: unit tap)
   \<and> finished (flush \<lparr>rs_new = (\<lambda>n. ()), rs_push = (\<lambda>r f. ([f], r)), rs_flush = (\<lambda>r. ([], r))\<rparr>
        (captures \<lparr>rs_new = (\<lambda>n. ()), rs_push = (\<lambda>r f. ([f], r)), rs_flush = (\<lambda>r. ([], r))\<rparr>
           new_tap [\<lparr>sample_rate = 24000, data = ''ab''\<rparr>, \<lparr>sample_rate = 24000, data = ''cd''\<rparr>]))
       = [False]
   \<and> finished (clear_buffer
        (captures \<lparr>rs_new = (\<lambda>n. ()), rs_push = (\<lambda>r f. ([f], r)), rs_flush = (\<lambda>r. ([], r))\<rparr>
           new_tap [\<lparr>sample_rate = 24000, data = ''ab''\<rparr>, \<lparr>sample_rate = 24000, data = ''cd''\<rparr>]))
       = [True]
   \<and> finished (flush \<lparr>rs_new = (\<lambda>n. ()), rs_push = (\<lambda>r f. ([f], r)), rs_flush = (\<lambda>r. ([], r))\<rparr>
        (new_tap :: unit tap)) = []
   \<and> finished (clear_buffer (new_tap :: unit tap)) = []"
proof -
  let ?ops = "\<lparr>rs_new = (\<lambda>n :: nat. ()), rs_push = (\<lambda>(r :: unit) (f :: audio_frame). ([f], r)),
               rs_flush = (\<lambda>r :: unit. ([] :: audio_frame list, r))\<rparr>"
  let ?frames = "[\<lparr>sample_rate = 24000, data = ''ab''\<rparr>, \<lparr>sample_rate = 24000, data = ''cd''\<rparr>]"
  have h1: "?frames \<noteq> []" by simp
  have h2: "\<not> segment_active (new_tap :: unit tap)" by (simp add: new_tap_def)
  have f0: "finished (new_tap :: unit tap) = []" by (simp add: new_tap_def)
  note t = one_finished_signal_per_segment [of ?frames ?ops new_tap "[]"]
  note a = t [THEN conjunct1, THEN mp, OF h1]
  note b = t [THEN conjunct2, THEN conjunct1, THEN mp, OF h2]
  show ?thesis
    using h1 h2 a [THEN conjunct1] a [THEN conjunct2, THEN conjunct1] b
    by (simp add: f0)
qed

section \<open>Properties of the background sender\<close>

lemma captured_append: "captured (xs @ ys) = captured xs @ captured ys"
  by (simp add: captured_def)

lemma captured_Cons:
  "captured (item # q) = (if item = FLUSH then [Inr ()] else map Inl item) @ captured q"
  by (simp add: captured_def)

lemma delivered_append: "delivered (xs @ ys) = delivered xs @ delivered ys"
  by (induction xs rule: delivered.induct) simp_all

lemma drain_no_sentinel:
  "FLUSH \<notin> set pre \<Longrightarrow> drain batch pre = (batch @ concat pre, False, [])"
  by (induction pre arbitrary: batch) auto

lemma drain_sentinel:
  "FLUSH \<notin> set pre \<Longrightarrow> drain batch (pre @ FLUSH # post) = (batch @ concat pre, True, post)"
  by (induction pre arbitrary: batch) auto

lemma drain_captured:
  "drain batch q = (b, found, rest) \<Longrightarrow>
     map Inl b @ (if found then [Inr ()] else []) @ captured rest = map Inl batch @ captured q"
proof (induction q arbitrary: batch)
  case Nil
  then show ?case by (auto simp: captured_def)
next
  case (Cons extra q)
  show ?case
  proof (cases "extra = FLUSH")
    case True
    with Cons.prems show ?thesis by (auto simp: captured_Cons)
  next
    case False
    with Cons.prems have "drain (batch @ extra) q = (b, found, rest)" by simp
    from Cons.IH [OF this] False show ?thesis by (simp add: captured_Cons)
  qed
qed

lemma send_iteration_captured:
  "\<exists>segs. fst (send_iteration enc item q) = map (call_of enc) segs
     \<and> delivered segs @ captured (snd (send_iteration enc item q)) = captured (item # q)"
proof (cases "item = FLUSH")
  case True
  have "fst (send_iteration enc item q) = map (call_of enc) [Inr ()]"
    using True by (simp add: send_iteration_def)
  moreover have "delivered [Inr ()] @ captured (snd (send_iteration enc item q)) = captured (item # q)"
    using True by (simp add: send_iteration_def captured_Cons)
  ultimately show ?thesis by (rule_tac x = "[Inr ()]" in exI) (rule conjI)
next
  case False
  obtain b found rest where d: "drain item q = (b, found, rest)"
    by (cases "drain item q") auto
  let ?segs = "Inl b # (if found then [Inr ()] else [])"
  have "fst (send_iteration enc item q) = map (call_of enc) ?segs"
    using False d by (simp add: send_iteration_def)
  moreover have "delivered ?segs @ captured (snd (send_iteration enc item q)) = captured (item # q)"
    using False d drain_captured [OF d] by (auto simp: send_iteration_def captured_Cons)
  ultimately show ?thesis by (rule_tac x = ?segs in exI) (rule conjI)
qed

lemma send_loop_captured:
  "\<exists>segs. send_loop enc q arrivals = map (call_of enc) segs
     \<and> delivered segs = captured (q @ concat arrivals)"
proof (induction enc q arrivals rule: send_loop.induct)
  case (1 enc)
  show ?case by (rule exI [of _ "[]"]) (simp add: captured_def)
next
  case (2 enc a arrivals)
  then show ?case by simp
next
  case (3 enc item q)
  from send_iteration_captured [of enc item q] obtain s1
    where a1: "fst (send_iteration enc item q) = map (call_of enc) s1"
      and a2: "delivered s1 @ captured (snd (send_iteration enc item q)) = captured (item # q)"
    by (elim exE conjE)
  from "3.IH" obtain s2
    where b1: "send_loop enc (snd (send_iteration enc item q)) [] = map (call_of enc) s2"
      and b2: "delivered s2 = captured (snd (send_iteration enc item q) @ concat [])"
    by (elim exE conjE)
  have "send_loop enc (item # q) [] = map (call_of enc) (s1 @ s2)"
    using a1 b1 by simp
  moreover have "delivered (s1 @ s2) = captured ((item # q) @ concat [])"
    using a2 b2 by (simp add: delivered_append)
  ultimately show ?case by (rule_tac x = "s1 @ s2" in exI) (rule conjI)
next
  case (4 enc item q a arrivals)
  from send_iteration_captured [of enc item q] obtain s1
    where a1: "fst (send_iteration enc item q) = map (call_of enc) s1"
      and a2: "delivered s1 @ captured (snd (send_iteration enc item q)) = captured (item # q)"
    by (elim exE conjE)
  from "4.IH" obtain s2
    where b1: "send_loop enc (snd (send_iteration enc item q) @ a) arrivals = map (call_of enc) s2"
      and b2: "delivered s2 = captured ((snd (send_iteration enc item q) @ a) @ concat arrivals)"
    by (elim exE conjE)
  have "send_loop enc (item # q) (a # arrivals) = map (call_of enc) (s1 @ s2)"
    using a1 b1 by simp
  moreover have "delivered (s1 @ s2) = captured ((item # q) @ concat (a # arrivals))"
  proof -
    have "delivered (s1 @ s2)
        = (delivered s1 @ captured (snd (send_iteration enc item q))) @ captured a
          @ captured (concat arrivals)"
      using b2 by (simp add: delivered_append captured_append)
    also have "\<dots> = captured (item # q) @ captured a @ captured (concat arrivals)"
      by (simp only: a2)
    finally show ?thesis by (simp add: captured_append captured_Cons)
  qed
  ultimately show ?case by (rule_tac x = "s1 @ s2" in exI) (rule conjI)
qed

text \<open>
  Claim C8. The sender never puts the sentinel into an audio batch. When the drain meets
  the sentinel, the batch gathered so far (the first item and the items before the
  sentinel) is sent in one \<open>send_audio\<close> call and \<open>notify_speak_end\<close> is called after
  it, the items behind the sentinel stay in the queue; a sentinel taken as the first
  item gives \<open>notify_speak_end\<close> alone. Over a whole run, with items arriving while the
  sender is suspended, the batches sent and the end-of-speech calls are, in order,
  the audio bytes and the sentinels that were queued.
\<close>

theorem sentinel_never_batched:
  "(item \<noteq> FLUSH \<and> FLUSH \<notin> set pre \<longrightarrow>
      send_iteration enc item (pre @ FLUSH # post)
        = ([SendAudio (enc (item @ concat pre)), NotifySpeakEnd], post)
      \<and> send_iteration enc item pre = ([SendAudio (enc (item @ concat pre))], []))
   \<and> send_iteration enc FLUSH q = ([NotifySpeakEnd], q)
   \<and> (\<exists>segs. send_loop enc q arrivals = map (call_of enc) segs
         \<and> delivered segs = captured (q @ concat arrivals))"
  using send_loop_captured [of enc q arrivals]
  by (simp add: send_iteration_def drain_sentinel drain_no_sentinel)

theorem sentinel_never_batched_witness:
  "''ab'' \<noteq> FLUSH \<and> FLUSH \<notin> set [''cd'']
   \<and> send_iteration (\<lambda>b. b) ''ab'' [''cd'', FLUSH, ''ef'']
       = ([SendAudio ''abcd'', NotifySpeakEnd], [''ef''])
   \<and> send_loop (\<lambda>b. b) [''ab'', ''cd'', FLUSH, ''ef''] [[''gh'', FLUSH]]
       = [SendAudio ''abcd'', NotifySpeakEnd, SendAudio ''efgh'', NotifySpeakEnd]"
proof -
  have h: "''ab'' \<noteq> FLUSH \<and> FLUSH \<notin> set [''cd'']" by (simp add: FLUSH_def)
  note t = sentinel_never_batched [of "''ab''" "[''cd'']" "\<lambda>b. b" "[''ef'']" "[]" "[]"]
  from t [THEN conjunct1, THEN mp, OF h, THEN conjunct1]
  have a: "send_iteration (\<lambda>b. b) ''ab'' [''cd'', FLUSH, ''ef'']
       = ([SendAudio ''abcd'', NotifySpeakEnd], [''ef''])" by simp
  have f: "''ef'' \<noteq> FLUSH" "''gh'' \<noteq> FLUSH" "''cd'' \<noteq> FLUSH" "''ab'' \<noteq> FLUSH"
    by (simp_all add: FLUSH_def)
  have b: "send_loop (\<lambda>b. b) [''ab'', ''cd'', FLUSH, ''ef''] [[''gh'', FLUSH]]
       = [SendAudio ''abcd'', NotifySpeakEnd, SendAudio ''efgh'', NotifySpeakEnd]"
    by (simp add: send_iteration_def f)
  show ?thesis using h a b by simp
qed

section \<open>Properties of the avatar session\<close>



lemma stop_tap_close_fails:
  "started s \<Longrightarrow> audio_tap s = Some t \<Longrightarrow>
     stop False s = (Some TapCloseFailed, s\<lparr>audio_tap := Some (aclose t)\<rparr>, [CloseTap])"
  by (simp add: stop_def)






section \<open>Properties of the login\<close>
































end
